theory Spec2Isabelle
  imports Complex_Main
begin

section \<open>Values and columns\<close>

text \<open>
  The program works on a pandas DataFrame built from the record messages of a FIT file.
  A float64 cell is modelled as \<open>real option\<close>: \<open>None\<close> is NaN, \<open>Some x\<close> the number
  \<open>x\<close>. Arithmetic is exact (rounding error of binary floats is not modelled), and a NaN
  operand makes the result NaN. The speed column is the one column that the program
  fills with the quotient of two columns, so its cells are modelled as \<open>xfloat\<close>, which
  has the two infinities that a float64 division by zero gives as well. Every record
  message is taken to carry a timestamp, so
  the timestamp column is a proper datetime column; a timestamp is the number of seconds
  since the epoch (UTC).
\<close>

datatype fitval = FNone | FNum real | FOther
  \<comment> \<open>a decoded field: missing, a number, or a value that \<open>float()\<close> rejects\<close>

fun to_float :: "fitval \<Rightarrow> real option" where
  "to_float FNone = None"
| "to_float (FNum x) = Some x"
| "to_float FOther = None"

definition SEMICIRCLES_TO_DEGREES :: real where
  "SEMICIRCLES_TO_DEGREES = 180 / 2 ^ 31"

definition semicircles_to_deg :: "fitval \<Rightarrow> real option" where
  "semicircles_to_deg val =
     (case to_float val of None \<Rightarrow> None | Some v \<Rightarrow> Some (v * SEMICIRCLES_TO_DEGREES))"

datatype xfloat = XNaN | XNum real | XInf | XNegInf
  \<comment> \<open>a float64 cell that may hold an infinity: NaN, a number, inf or -inf\<close>

record message =
  timestamp_raw :: real
  position_lat :: fitval
  position_long :: fitval
  altitude :: fitval
  speed :: fitval
  distance :: fitval
  heart_rate :: fitval
  cadence :: fitval
  power_raw :: fitval
  temperature :: fitval

record sample =
  timestamp :: real
  latitude_deg :: "real option"
  longitude_deg :: "real option"
  altitude_m :: "real option"
  speed_m_s :: xfloat
  distance_m :: "real option"
  heart_rate_bpm :: "real option"
  cadence_rpm :: "real option"
  power_w :: "real option"
  temperature_c :: "real option"

type_synonym dataframe = "sample list"

text \<open>
  \<open>DataFrame.from_records\<close> gives a column in which every value is \<open>None\<close> the dtype
  object and keeps the \<open>None\<close>s; a column with at least one number becomes float64 and
  its missing values become NaN. Reading a single cell with \<open>df.at\<close> therefore yields
  Python's \<open>None\<close> in the first case and NaN in the second.
\<close>

datatype cell = PyNone | NaN | Num real

definition is_object :: "real option list \<Rightarrow> bool" where
  "is_object col = list_all (\<lambda>v. v = None) col"

definition at_cell :: "real option list \<Rightarrow> nat \<Rightarrow> cell" where
  "at_cell col i =
     (case col ! i of Some x \<Rightarrow> Num x
      | None \<Rightarrow> if is_object col then PyNone else NaN)"

definition fadd :: "real option \<Rightarrow> real option \<Rightarrow> real option" where
  "fadd a b = (case (a, b) of (Some x, Some y) \<Rightarrow> Some (x + y) | _ \<Rightarrow> None)"

definition fsub :: "real option \<Rightarrow> real option \<Rightarrow> real option" where
  "fsub a b = (case (a, b) of (Some x, Some y) \<Rightarrow> Some (x - y) | _ \<Rightarrow> None)"

definition of_opt :: "real option \<Rightarrow> xfloat" where
  "of_opt v = (case v of None \<Rightarrow> XNaN | Some x \<Rightarrow> XNum x)"

definition xdiv :: "real option \<Rightarrow> real option \<Rightarrow> xfloat" where
  \<comment> \<open>the division of two float64 columns: a zero divisor raises nothing, it gives NaN
      for 0 / 0 and otherwise the infinity with the sign of the numerator (the zero time
      deltas of the program are +0.0)\<close>
  "xdiv a b =
     (case (a, b) of
        (Some x, Some y) \<Rightarrow>
          if y = 0 then (if x = 0 then XNaN else if 0 < x then XInf else XNegInf)
          else XNum (x / y)
      | _ \<Rightarrow> XNaN)"

definition xfillna :: "real \<Rightarrow> xfloat list \<Rightarrow> xfloat list" where
  \<comment> \<open>\<open>fillna\<close> replaces NaN only; an infinity stays\<close>
  "xfillna c col = map (\<lambda>v. case v of XNaN \<Rightarrow> XNum c | _ \<Rightarrow> v) col"

definition xisna_sum :: "xfloat list \<Rightarrow> nat" where
  "xisna_sum col = length (filter (\<lambda>v. v = XNaN) col)"

definition xgt :: "xfloat \<Rightarrow> real \<Rightarrow> bool" where
  \<comment> \<open>\<open>v > c\<close>; a comparison with NaN is false\<close>
  "xgt v c = (case v of XNaN \<Rightarrow> False | XNum x \<Rightarrow> c < x | XInf \<Rightarrow> True | XNegInf \<Rightarrow> False)"

fun xmax2 :: "xfloat \<Rightarrow> xfloat \<Rightarrow> xfloat" where
  "xmax2 XInf v = XInf"
| "xmax2 v XInf = XInf"
| "xmax2 XNegInf v = v"
| "xmax2 v XNegInf = v"
| "xmax2 XNaN v = v"
| "xmax2 v XNaN = v"
| "xmax2 (XNum x) (XNum y) = XNum (max x y)"

definition xcol_max :: "xfloat list \<Rightarrow> xfloat" where
  \<comment> \<open>\<open>Series.max()\<close>: the greatest value that is not NaN, NaN when there is none\<close>
  "xcol_max col =
     (case filter (\<lambda>v. v \<noteq> XNaN) col of [] \<Rightarrow> XNaN | x # xs \<Rightarrow> fold xmax2 xs x)"

definition xor_zero :: "xfloat \<Rightarrow> xfloat" where
  \<comment> \<open>\<open>v or 0.0\<close>: only 0.0 is falsy\<close>
  "xor_zero v = (if v = XNum 0 then XNum 0 else v)"

definition xscale :: "xfloat \<Rightarrow> real \<Rightarrow> xfloat" where
  \<comment> \<open>\<open>v * c\<close>\<close>
  "xscale v c =
     (case v of XNaN \<Rightarrow> XNaN | XNum x \<Rightarrow> XNum (x * c)
      | XInf \<Rightarrow> if 0 < c then XInf else if c < 0 then XNegInf else XNaN
      | XNegInf \<Rightarrow> if 0 < c then XNegInf else if c < 0 then XInf else XNaN)"

definition or_zero :: "real option \<Rightarrow> real option" where
  \<comment> \<open>\<open>d or 0.0\<close> on a float: only 0.0 is falsy, NaN is truthy\<close>
  "or_zero d = (if d = Some 0 then Some 0 else d)"

definition notna_sum :: "real option list \<Rightarrow> nat" where
  "notna_sum col = length (filter (\<lambda>v. v \<noteq> None) col)"

definition present :: "real option list \<Rightarrow> real list" where
  "present col = concat (map (\<lambda>v. case v of None \<Rightarrow> [] | Some x \<Rightarrow> [x]) col)"

definition col_max :: "real option list \<Rightarrow> real option" where
  \<comment> \<open>\<open>Series.max(skipna=True)\<close>: NaN when no value is present\<close>
  "col_max col = (case present col of [] \<Rightarrow> None | x # xs \<Rightarrow> Some (fold max xs x))"

definition col_mean :: "real option list \<Rightarrow> real option" where
  \<comment> \<open>\<open>Series.mean()\<close>: the mean of the values present\<close>
  "col_mean col =
     (case present col of [] \<Rightarrow> None
      | x # xs \<Rightarrow> Some (sum_list (x # xs) / real (length (x # xs))))"

definition fillna :: "real \<Rightarrow> real option list \<Rightarrow> real list" where
  "fillna c col = map (\<lambda>v. case v of None \<Rightarrow> c | Some x \<Rightarrow> x) col"

fun diff_from :: "real option \<Rightarrow> real option list \<Rightarrow> real option list" where
  "diff_from p [] = []"
| "diff_from p (x # xs) = fsub x p # diff_from x xs"

definition diff :: "real option list \<Rightarrow> real option list" where
  \<comment> \<open>\<open>Series.diff()\<close>: NaN in the first row, then each value minus its predecessor\<close>
  "diff col = (case col of [] \<Rightarrow> [] | x # xs \<Rightarrow> None # diff_from x xs)"

definition shift1 :: "real option list \<Rightarrow> real option list" where
  \<comment> \<open>\<open>Series.shift(1)\<close>\<close>
  "shift1 col = (case col of [] \<Rightarrow> [] | x # xs \<Rightarrow> None # butlast (x # xs))"

section \<open>Helper functions\<close>

definition radians :: "real \<Rightarrow> real" where
  "radians x = x * pi / 180"

definition atan2 :: "real \<Rightarrow> real \<Rightarrow> real" where
  "atan2 y x =
     (if 0 < x then arctan (y / x)
      else if x < 0 then (if 0 \<le> y then arctan (y / x) + pi else arctan (y / x) - pi)
      else if 0 < y then pi / 2
      else if y < 0 then - pi / 2
      else 0)"

definition hav_a :: "real \<Rightarrow> real \<Rightarrow> real \<Rightarrow> real \<Rightarrow> real" where
  "hav_a lat1 lon1 lat2 lon2 =
     (let phi1 = radians lat1; phi2 = radians lat2;
          dphi = radians (lat2 - lat1); dlmb = radians (lon2 - lon1)
      in (sin (dphi / 2))\<^sup>2 + cos phi1 * cos phi2 * (sin (dlmb / 2))\<^sup>2)"

definition haversine_m :: "cell \<Rightarrow> cell \<Rightarrow> cell \<Rightarrow> cell \<Rightarrow> real option" where
  \<comment> \<open>only Python's \<open>None\<close> is caught by the guard; a NaN argument goes through the
      trigonometry and the result is NaN. \<open>math.sqrt\<close> raises on a negative argument:
      \<open>hav_a\<close> lies between 0 and 1 (lemma \<open>hav_a_bounds\<close>), so it does not here\<close>
  "haversine_m lat1 lon1 lat2 lon2 =
     (if PyNone \<in> set [lat1, lon1, lat2, lon2] then Some 0
      else case (lat1, lon1, lat2, lon2) of
        (Num a1, Num o1, Num a2, Num o2) \<Rightarrow>
          (let R = 6371000; a = hav_a a1 o1 a2 o2
           in Some (2 * R * atan2 (sqrt a) (sqrt (1 - a))))
      | _ \<Rightarrow> None)"

datatype pyerr = TypeError

definition positive_gain :: "real option list \<Rightarrow> pyerr + real" where
  \<comment> \<open>\<open>Series.diff()\<close> on an object column subtracts \<open>None\<close> from \<open>None\<close> as soon as
      there is a second row\<close>
  "positive_gain series =
     (if series = [] then Inr 0
      else if is_object series \<and> 2 \<le> length series then Inl TypeError
      else Inr (sum_list (filter (\<lambda>d. 0 < d) (present (diff series)))))"

section \<open>Work integration\<close>

definition integrate_work_joules :: "dataframe \<Rightarrow> real" where
  "integrate_work_joules df =
     (if df = [] \<or> notna_sum (map power_w df) < 2 then 0
      else let power = fillna 0 (map power_w df);
               dt = fillna 0 (diff (map (\<lambda>s. Some (timestamp s)) df));
               p_prev = fillna 0 (shift1 (map Some power));
               work = map (\<lambda>((p, pp), d). ((p + pp) / 2) * d) (zip (zip power p_prev) dt)
           in sum_list work)"

section \<open>Record extraction\<close>

definition from_message :: "message \<Rightarrow> sample" where
  "from_message data =
     \<lparr>timestamp = timestamp_raw data,
      latitude_deg = semicircles_to_deg (position_lat data),
      longitude_deg = semicircles_to_deg (position_long data),
      altitude_m = to_float (altitude data),
      speed_m_s = of_opt (to_float (speed data)),
      distance_m = to_float (distance data),
      heart_rate_bpm = to_float (heart_rate data),
      cadence_rpm = to_float (cadence data),
      power_w = to_float (power_raw data),
      temperature_c = to_float (temperature data)\<rparr>"

definition sort_values :: "dataframe \<Rightarrow> dataframe" where
  \<comment> \<open>ascending by timestamp; rows with equal timestamps keep their order here\<close>
  "sort_values df = sort_key timestamp df"

definition distance_trigger :: "dataframe \<Rightarrow> bool" where
  "distance_trigger df =
     (let c = map distance_m df
      in list_all (\<lambda>v. v = None) c \<or> (case col_max c of None \<Rightarrow> 0 | Some m \<Rightarrow> m) = 0)"

fun dists_upto :: "real option list \<Rightarrow> real option list \<Rightarrow> nat \<Rightarrow> real option list" where
  \<comment> \<open>the list \<open>dists\<close> after the loop body has run for \<open>i = 1, ..., k\<close>\<close>
  "dists_upto lat lon 0 = [Some 0]"
| "dists_upto lat lon (Suc k) =
     (let dists = dists_upto lat lon k;
          d = haversine_m (at_cell lat k) (at_cell lon k)
                (at_cell lat (Suc k)) (at_cell lon (Suc k))
      in dists @ [fadd (last dists) (or_zero d)])"

definition rebuild_distance :: "dataframe \<Rightarrow> dataframe" where
  "rebuild_distance df =
     (let dists = dists_upto (map latitude_deg df) (map longitude_deg df) (length df - 1)
      in map (\<lambda>(s, v). s\<lparr>distance_m := v\<rparr>) (zip df dists))"

definition speed_trigger :: "dataframe \<Rightarrow> bool" where
  "speed_trigger df =
     (1 / 2 < real (xisna_sum (map speed_m_s df)) / real (length df))"

definition mask_zero :: "real list \<Rightarrow> real option list" where
  \<comment> \<open>\<open>dt.mask(dt == 0)\<close>\<close>
  "mask_zero dt = map (\<lambda>d. if d = 0 then None else Some d) dt"

definition derived_speed :: "dataframe \<Rightarrow> xfloat list" where
  "derived_speed df =
     (let dt = fillna 0 (diff (map (\<lambda>s. Some (timestamp s)) df));
          ds = fillna 0 (diff (map distance_m df));
          dt_safe = mask_zero dt
      in xfillna 0 (map (\<lambda>(a, b). xdiv (Some a) b) (zip ds dt_safe)))"

definition rebuild_speed :: "dataframe \<Rightarrow> dataframe" where
  "rebuild_speed df =
     map (\<lambda>(s, v). s\<lparr>speed_m_s := v\<rparr>) (zip df (derived_speed df))"

fun next_valid :: "real option list \<Rightarrow> (nat \<times> real) option" where
  \<comment> \<open>offset and value of the first value present\<close>
  "next_valid [] = None"
| "next_valid (Some x # xs) = Some (0, x)"
| "next_valid (None # xs) =
     (case next_valid xs of None \<Rightarrow> None | Some (k, x) \<Rightarrow> Some (Suc k, x))"

fun interp_from :: "(nat \<times> real) option \<Rightarrow> real option list \<Rightarrow> real option list" where
  \<comment> \<open>\<open>prev = Some (j, a)\<close>: the last value present is \<open>a\<close>, \<open>j\<close> rows back\<close>
  "interp_from prev [] = []"
| "interp_from prev (Some x # xs) = Some x # interp_from (Some (1, x)) xs"
| "interp_from prev (None # xs) =
     (case (prev, next_valid xs) of
        (Some (j, a), Some (k, b)) \<Rightarrow> Some (a + (b - a) * real j / real (j + Suc k))
      | (Some (j, a), None) \<Rightarrow> Some a
      | (None, Some (k, b)) \<Rightarrow> Some b
      | (None, None) \<Rightarrow> None)
     # interp_from (case prev of None \<Rightarrow> None | Some (j, a) \<Rightarrow> Some (Suc j, a)) xs"

definition interpolate :: "real option list \<Rightarrow> real option list" where
  \<comment> \<open>\<open>Series.interpolate(limit_direction="both")\<close>: linear in the row index, the
      first and last values present extended to the ends\<close>
  "interpolate col = interp_from None col"

definition fill_altitude :: "dataframe \<Rightarrow> dataframe" where
  "fill_altitude df =
     map (\<lambda>(s, v). s\<lparr>altitude_m := v\<rparr>) (zip df (interpolate (map altitude_m df)))"

definition parse_fit_records :: "message list \<Rightarrow> dataframe" where
  "parse_fit_records msgs =
     (let df = map from_message msgs
      in if df = [] then df
         else let df = sort_values df;
                  df = (if distance_trigger df then rebuild_distance df else df);
                  df = (if speed_trigger df then rebuild_speed df else df);
                  df = (if 5 < notna_sum (map altitude_m df) then fill_altitude df else df)
              in df)"

section \<open>Metrics\<close>

datatype jval = JNull | JStr string | JNum real | JNaN | JInf | JNegInf
  | JDict "(string \<times> jval) list"

type_synonym summary = "(string \<times> jval) list"

definition py_round :: "real \<Rightarrow> nat \<Rightarrow> real" where
  \<comment> \<open>\<open>round(x, n)\<close>: to the nearest multiple of \<open>10 ^ -n\<close>, ties to even\<close>
  "py_round x n =
     (let y = x * 10 ^ n; f = \<lfloor>y\<rfloor>; r = y - of_int f
      in of_int (if r < 1 / 2 then f else if 1 / 2 < r then f + 1
                 else if even f then f else f + 1) / 10 ^ n)"

definition jround :: "real option \<Rightarrow> nat \<Rightarrow> jval" where
  \<comment> \<open>rounding a float that may be NaN\<close>
  "jround v n = (case v of None \<Rightarrow> JNaN | Some x \<Rightarrow> JNum (py_round x n))"

definition xjround :: "xfloat \<Rightarrow> nat \<Rightarrow> jval" where
  \<comment> \<open>rounding a float that may be NaN or infinite: \<open>round\<close> returns both unchanged\<close>
  "xjround v n =
     (case v of XNaN \<Rightarrow> JNaN | XNum x \<Rightarrow> JNum (py_round x n) | XInf \<Rightarrow> JInf
      | XNegInf \<Rightarrow> JNegInf)"

definition jround_opt :: "real option \<Rightarrow> nat \<Rightarrow> jval" where
  \<comment> \<open>\<open>round(v, n) if v is not None else None\<close>\<close>
  "jround_opt v n = (case v of None \<Rightarrow> JNull | Some x \<Rightarrow> JNum (py_round x n))"

definition jround_truthy :: "real option \<Rightarrow> nat \<Rightarrow> jval" where
  \<comment> \<open>\<open>round(v, n) if v else None\<close>\<close>
  "jround_truthy v n =
     (case v of None \<Rightarrow> JNull | Some x \<Rightarrow> if x = 0 then JNull else JNum (py_round x n))"

definition jinput :: "real option \<Rightarrow> jval" where
  "jinput v = (case v of None \<Rightarrow> JNull | Some x \<Rightarrow> JNum x)"

definition truthy :: "real option \<Rightarrow> bool" where
  \<comment> \<open>truth value of an \<open>Optional[float]\<close> argument\<close>
  "truthy v = (case v of None \<Rightarrow> False | Some x \<Rightarrow> x \<noteq> 0)"

definition fscale :: "real option \<Rightarrow> real \<Rightarrow> real option" where
  "fscale v c = (case v of None \<Rightarrow> None | Some x \<Rightarrow> Some (x * c))"

definition ts_min :: "dataframe \<Rightarrow> real" where
  "ts_min df = (case map timestamp df of [] \<Rightarrow> 0 | t # ts \<Rightarrow> fold min ts t)"

definition ts_max :: "dataframe \<Rightarrow> real" where
  "ts_max df = (case map timestamp df of [] \<Rightarrow> 0 | t # ts \<Rightarrow> fold max ts t)"

definition moving_mask :: "sample \<Rightarrow> bool" where
  \<comment> \<open>\<open>df["speed_m_s"].fillna(0) > 0.5\<close>, row by row\<close>
  "moving_mask s = xgt (case speed_m_s s of XNaN \<Rightarrow> XNum 0 | v \<Rightarrow> v) (1 / 2)"

definition moving_seconds :: "dataframe \<Rightarrow> real" where
  \<comment> \<open>the rows are selected first, then their timestamps are differenced\<close>
  "moving_seconds df =
     sum_list (fillna 0 (diff (map (\<lambda>s. Some (timestamp s)) (filter moving_mask df))))"

definition agg_or_none :: "(real option list \<Rightarrow> real option) \<Rightarrow> real option list \<Rightarrow> real option" where
  \<comment> \<open>\<open>float(col.f()) if col.notna().any() else None\<close>\<close>
  "agg_or_none f col = (if 0 < notna_sum col then f col else None)"

definition no_data :: summary where
  "no_data = [(''note'', JStr ''Keine 'record'-Daten gefunden.'')]"

definition compute_metrics ::
  "(real \<Rightarrow> string) \<Rightarrow> dataframe \<Rightarrow> 'agg \<Rightarrow> real option \<Rightarrow> real option \<Rightarrow> real option
     \<Rightarrow> pyerr + summary" where
  \<comment> \<open>\<open>strftime_local\<close> stands for the conversion of an instant to Europe/Berlin and its
      rendering with \<open>strftime\<close>, which pandas provides\<close>
  "compute_metrics strftime_local df agg wall_energy_kWh eff_wall2batt_pct muscle_eff_pct =
     (if df = [] then Inr no_data
      else
        let start_ts_utc = ts_min df;
            end_ts_utc = ts_max df;
            elapsed_s = end_ts_utc - start_ts_utc;
            moving_s = moving_seconds df;
            total_dist_m = or_zero (col_max (map distance_m df));
            avg_speed_m_s =
              (if 0 < elapsed_s
               then (case total_dist_m of None \<Rightarrow> None | Some d \<Rightarrow> Some (d / elapsed_s))
               else Some 0);
            max_speed_m_s = xor_zero (xcol_max (map speed_m_s df))
        in case positive_gain (map altitude_m df) of
             Inl e \<Rightarrow> Inl e
           | Inr ascent_m \<Rightarrow>
        let hr_avg = agg_or_none col_mean (map heart_rate_bpm df);
            hr_max = agg_or_none col_max (map heart_rate_bpm df);
            cad_avg = agg_or_none col_mean (map cadence_rpm df);
            cad_max = agg_or_none col_max (map cadence_rpm df);
            pwr_avg = agg_or_none col_mean (map power_w df);
            pwr_max = agg_or_none col_max (map power_w df);
            temp_avg = agg_or_none col_mean (map temperature_c df);
            rider_work_J = integrate_work_joules df;
            rider_work_Wh = rider_work_J / 3600;
            motor_energy_Wh =
              (if truthy wall_energy_kWh \<and> truthy eff_wall2batt_pct
               then Some (the wall_energy_kWh * 1000 * (the eff_wall2batt_pct / 100))
               else None);
            total_work_Wh = rider_work_Wh + (case motor_energy_Wh of None \<Rightarrow> 0 | Some m \<Rightarrow> m);
            total_work_J = total_work_Wh * 3600;
            calories_mech = rider_work_J / 4184;
            calories_food =
              (if truthy muscle_eff_pct then Some (calories_mech / (the muscle_eff_pct / 100))
               else None);
            calories_range =
              (if truthy muscle_eff_pct
               then JDict [(''20%'', JNum (py_round (calories_mech / (20 / 100)) 1)),
                           (''25%'', JNum (py_round (calories_mech / (25 / 100)) 1))]
               else JNull)
        in Inr
          [(''start_time'', JStr (strftime_local start_ts_utc)),
           (''end_time'', JStr (strftime_local end_ts_utc)),
           (''timezone'', JStr ''Europe/Berlin''),
           (''elapsed_time_s'', JNum (py_round elapsed_s 1)),
           (''moving_time_s'', JNum (py_round moving_s 1)),
           (''distance_m'', jround total_dist_m 1),
           (''avg_speed_kmh'', jround (fscale avg_speed_m_s (36 / 10)) 2),
           (''max_speed_kmh'', xjround (xscale max_speed_m_s (36 / 10)) 2),
           (''elevation_gain_m'', JNum (py_round ascent_m 1)),
           (''avg_cadence_rpm'', jround_opt cad_avg 1),
           (''max_cadence_rpm'', jround_opt cad_max 1),
           (''avg_power_w'', jround_opt pwr_avg 1),
           (''max_power_w'', jround_opt pwr_max 1),
           (''rider_work_Wh'', JNum (py_round rider_work_Wh 2)),
           (''rider_work_J'', JNum (py_round rider_work_J 1)),
           (''motor_energy_Wh'', jround_truthy motor_energy_Wh 2),
           (''total_work_Wh'', JNum (py_round total_work_Wh 2)),
           (''total_work_J'', JNum (py_round total_work_J 1)),
           (''calories_mechanical_kcal'', JNum (py_round calories_mech 1)),
           (''calories_food_est_kcal'', jround_truthy calories_food 1),
           (''calories_food_est_range_kcal'', calories_range),
           (''wall_energy_kWh_input'', jinput wall_energy_kWh),
           (''wall2battery_eff_pct_input'', jinput eff_wall2batt_pct),
           (''muscle_eff_pct_input'', jinput muscle_eff_pct)])"

definition field :: "pyerr + summary \<Rightarrow> string \<Rightarrow> jval option" where
  \<comment> \<open>the value stored under a key of the returned dictionary\<close>
  "field r k = (case r of Inl e \<Rightarrow> None | Inr s \<Rightarrow> map_of s k)"

definition summary_keys :: "string list" where
  \<comment> \<open>the keys of the dictionary literal \<open>summary\<close>, in its order\<close>
  "summary_keys = [''start_time'', ''end_time'', ''timezone'', ''elapsed_time_s'',
     ''moving_time_s'', ''distance_m'', ''avg_speed_kmh'', ''max_speed_kmh'',
     ''elevation_gain_m'', ''avg_cadence_rpm'', ''max_cadence_rpm'', ''avg_power_w'',
     ''max_power_w'', ''rider_work_Wh'', ''rider_work_J'', ''motor_energy_Wh'',
     ''total_work_Wh'', ''total_work_J'', ''calories_mechanical_kcal'',
     ''calories_food_est_kcal'', ''calories_food_est_range_kcal'',
     ''wall_energy_kWh_input'', ''wall2battery_eff_pct_input'', ''muscle_eff_pct_input'']"

section \<open>Reference definitions\<close>

text \<open>
  The definitions of this section are not part of the program. They state, in the words
  of the specification, what the program is compared with.
\<close>

definition power0 :: "sample \<Rightarrow> real" where
  \<comment> \<open>the power of a sample, an absent value counted as 0\<close>
  "power0 s = (case power_w s of None \<Rightarrow> 0 | Some p \<Rightarrow> p)"

fun trapezoid_spec :: "dataframe \<Rightarrow> real" where
  \<comment> \<open>for each consecutive pair, the mean of the two powers times the time between them\<close>
  "trapezoid_spec (a # b # rest) =
     ((power0 b + power0 a) / 2) * (timestamp b - timestamp a) + trapezoid_spec (b # rest)"
| "trapezoid_spec _ = 0"

fun trap_prev :: "real \<Rightarrow> real \<Rightarrow> dataframe \<Rightarrow> real" where
  \<comment> \<open>the same sum, started from the power and the time of the preceding sample\<close>
  "trap_prev p t [] = 0"
| "trap_prev p t (x # xs) =
     ((power0 x + p) / 2) * (timestamp x - t) + trap_prev (power0 x) (timestamp x) xs"

fun moving_time_spec :: "dataframe \<Rightarrow> real" where
  \<comment> \<open>the time deltas of the consecutive pairs whose earlier sample is moving\<close>
  "moving_time_spec (a # b # rest) =
     (if moving_mask a then timestamp b - timestamp a else 0) + moving_time_spec (b # rest)"
| "moving_time_spec _ = 0"

definition speed_spec :: "real list \<Rightarrow> real option list \<Rightarrow> nat \<Rightarrow> real" where
  \<comment> \<open>the speed of row \<open>i\<close> from the time and distance columns: 0 in the first row and for
      a zero time delta, otherwise the distance delta, an absent one counted as 0, over
      the time delta\<close>
  "speed_spec ts ds i =
     (if i = 0 \<or> ts ! i - ts ! (i - 1) = 0 then 0
      else (case fsub (ds ! i) (ds ! (i - 1)) of None \<Rightarrow> 0 | Some d \<Rightarrow> d)
           / (ts ! i - ts ! (i - 1)))"

definition moving_span :: "dataframe \<Rightarrow> real" where
  \<comment> \<open>the time from the first moving sample of the table to its last one\<close>
  "moving_span df =
     (case filter moving_mask df of [] \<Rightarrow> 0
      | a # rest \<Rightarrow> timestamp (last (a # rest)) - timestamp a)"

section \<open>Sample inputs\<close>

definition blank :: "real \<Rightarrow> sample" where
  "blank t = \<lparr>timestamp = t, latitude_deg = None, longitude_deg = None,
     altitude_m = None, speed_m_s = XNaN, distance_m = None, heart_rate_bpm = None,
     cadence_rpm = None, power_w = None, temperature_c = None\<rparr>"

definition scenario_series :: dataframe where
  \<comment> \<open>t = 0 s, 100 m, no power; t = 10 s, 95 m, 200 W\<close>
  "scenario_series =
     [(blank 0)\<lparr>altitude_m := Some 100\<rparr>,
      (blank 10)\<lparr>altitude_m := Some 95, power_w := Some 200\<rparr>]"

definition scenario_with_power :: dataframe where
  \<comment> \<open>the same two samples, the first one with a measured power of 0 W\<close>
  "scenario_with_power =
     [(blank 0)\<lparr>altitude_m := Some 100, power_w := Some 0\<rparr>,
      (blank 10)\<lparr>altitude_m := Some 95, power_w := Some 200\<rparr>]"

definition stop_and_go :: dataframe where
  \<comment> \<open>three samples ten seconds apart; the rider stands still at the second one\<close>
  "stop_and_go =
     [(blank 0)\<lparr>altitude_m := Some 100, speed_m_s := XNum 1, heart_rate_bpm := Some 120,
                 power_w := Some 100, temperature_c := Some 19\<rparr>,
      (blank 10)\<lparr>altitude_m := Some 100, speed_m_s := XNum 0, heart_rate_bpm := Some 130,
                  power_w := Some 200, temperature_c := Some 20\<rparr>,
      (blank 20)\<lparr>altitude_m := Some 100, speed_m_s := XNum 1, heart_rate_bpm := Some 140,
                  power_w := Some 150, temperature_c := Some 21\<rparr>]"

definition msg :: "real \<Rightarrow> fitval \<Rightarrow> fitval \<Rightarrow> fitval \<Rightarrow> fitval \<Rightarrow> message" where
  \<comment> \<open>a record message with a time, a position, a speed and a distance\<close>
  "msg t lat lon spd dst = \<lparr>timestamp_raw = t, position_lat = lat, position_long = lon,
     altitude = FNone, speed = spd, distance = dst, heart_rate = FNone, cadence = FNone,
     power_raw = FNone, temperature = FNone\<rparr>"

definition gps_gap :: "message list" where
  \<comment> \<open>no distance and no speed; the second message has no position\<close>
  "gps_gap = [msg 0 (FNum 0) (FNum 0) FNone FNone,
              msg 10 FNone FNone FNone FNone,
              msg 20 (FNum 0) (FNum 0) FNone FNone]"

definition no_gps :: "message list" where
  \<comment> \<open>no distance, no speed and no position at all\<close>
  "no_gps = [msg 0 FNone FNone FNone FNone,
             msg 10 FNone FNone FNone FNone,
             msg 20 FNone FNone FNone FNone]"

definition same_time :: "message list" where
  \<comment> \<open>two messages with one timestamp, five metres apart, and no speed\<close>
  "same_time = [msg 7 FNone FNone FNone (FNum 0), msg 7 FNone FNone FNone (FNum 5)]"

definition mostly_absent :: "message list" where
  \<comment> \<open>one speed value of 9 m/s among three messages, ten metres and ten seconds apart\<close>
  "mostly_absent = [msg 0 FNone FNone FNone (FNum 0),
                    msg 10 FNone FNone (FNum 9) (FNum 10),
                    msg 20 FNone FNone FNone (FNum 20)]"

definition unsorted_ride :: "message list" where
  \<comment> \<open>two messages of 100 W, recorded ten seconds apart and stored in the wrong order\<close>
  "unsorted_ride = [(msg 10 FNone FNone FNone FNone)\<lparr>power_raw := FNum 100\<rparr>,
                    (msg 0 FNone FNone FNone FNone)\<lparr>power_raw := FNum 100\<rparr>]"

definition unmixed :: "real option list \<Rightarrow> bool" where
  \<comment> \<open>the column holds no value at all, or a value in every row\<close>
  "unmixed col = (is_object col \<or> list_all (\<lambda>v. v \<noteq> None) col)"

definition erase_speed :: "message \<Rightarrow> message" where
  \<comment> \<open>the same message without its speed field\<close>
  "erase_speed m = m\<lparr>speed := FNone\<rparr>"

definition forget_speed :: "sample \<Rightarrow> sample" where
  "forget_speed s = s\<lparr>speed_m_s := XNaN\<rparr>"

definition pre_speed :: "message list \<Rightarrow> dataframe" where
  \<comment> \<open>the table of \<open>parse_fit_records\<close> on entry to the speed pass\<close>
  "pre_speed msgs =
     (let df = sort_values (map from_message msgs)
      in if distance_trigger df then rebuild_distance df else df)"

section \<open>Properties of the work integrator\<close>

lemmas eval_defs = compute_metrics_def field_def Let_def ts_min_def ts_max_def
  moving_seconds_def moving_mask_def or_zero_def col_max_def present_def positive_gain_def
  is_object_def diff_def fsub_def fillna_def agg_or_none_def col_mean_def notna_sum_def
  integrate_work_joules_def truthy_def py_round_def jround_def jround_opt_def
  jround_truthy_def jinput_def fscale_def shift1_def blank_def xgt_def xcol_max_def
  xor_zero_def xscale_def xjround_def

lemma trapezoid_spec_Cons:
  "trapezoid_spec (a # rest) = trap_prev (power0 a) (timestamp a) rest"
  by (induction rest arbitrary: a) auto

lemma zip_shifted: "zip xs (y # butlast xs) = zip xs (y # xs)"
  by (induction xs arbitrary: y) auto

lemma fillna_power: "fillna 0 (map power_w df) = map power0 df"
  by (simp add: fillna_def power0_def)

lemma fillna_Cons_None: "fillna c (None # xs) = c # fillna c xs"
  by (simp add: fillna_def)

lemma work_sum_from:
  "sum_list (map (\<lambda>((p, pp), d). ((p + pp) / 2) * d)
      (zip (zip (map power0 xs) (p0 # map power0 xs))
           (fillna 0 (diff_from (Some t) (map (\<lambda>s. Some (timestamp s)) xs)))))
   = trap_prev p0 t xs"
  by (induction xs arbitrary: p0 t) (auto simp: fillna_def fsub_def)

lemma integrate_Cons:
  "integrate_work_joules (a # rest) =
     (if notna_sum (map power_w (a # rest)) < 2 then 0
      else trap_prev (power0 a) (timestamp a) rest)"
proof -
  let ?df = "a # rest"
  let ?F = "\<lambda>((p, pp), d). ((p + pp) / 2) * (d::real)"
  let ?dts = "fillna 0 (diff_from (Some (timestamp a)) (map (\<lambda>s. Some (timestamp s)) rest))"
  have sh: "fillna 0 (shift1 (map Some (map power0 ?df))) = 0 # butlast (map power0 ?df)"
    by (simp add: shift1_def fillna_def comp_def map_butlast)
  have dt: "fillna 0 (diff (map (\<lambda>s. Some (timestamp s)) ?df)) = 0 # ?dts"
    by (simp add: diff_def fillna_def)
  have main: "sum_list (map ?F (zip (zip (map power0 ?df) (0 # butlast (map power0 ?df)))
                 (0 # ?dts))) = trap_prev (power0 a) (timestamp a) rest"
    unfolding zip_shifted using work_sum_from[of rest "power0 a" "timestamp a"] by simp
  have ne: "?df \<noteq> []" by simp
  from main have "sum_list (map ?F (zip (zip (fillna 0 (map power_w ?df))
                 (fillna 0 (shift1 (map Some (fillna 0 (map power_w ?df))))))
                 (fillna 0 (diff (map (\<lambda>s. Some (timestamp s)) ?df)))))
        = trap_prev (power0 a) (timestamp a) rest"
    unfolding fillna_power sh dt .
  with ne show ?thesis
    unfolding integrate_work_joules_def Let_def
    by (simp only: simp_thms if_False split: if_split)
qed

lemma trap_prev_nonneg:
  "sorted (t # map timestamp xs) \<Longrightarrow> 0 \<le> p \<Longrightarrow> \<forall>s\<in>set xs. 0 \<le> power0 s
     \<Longrightarrow> 0 \<le> trap_prev p t xs"
  by (induction xs arbitrary: p t) auto

text \<open>
  C5. The work integrator returns exactly 0 when fewer than two samples have a power
  value. Otherwise it returns the trapezoidal integral of power over time: the sum, over
  the consecutive pairs of samples, of the mean of the two powers times the time between
  the two samples, an absent power counted as 0.
\<close>

theorem integrate_work_joules_trapezoid:
  "integrate_work_joules df =
     (if notna_sum (map power_w df) < 2 then 0 else trapezoid_spec df)"
proof (cases df)
  case Nil
  then show ?thesis by (simp add: integrate_work_joules_def)
next
  case (Cons a rest)
  then show ?thesis by (simp only: integrate_Cons trapezoid_spec_Cons)
qed

theorem integrate_work_joules_trapezoid_witness:
  "integrate_work_joules stop_and_go = 3250 \<and> trapezoid_spec stop_and_go = 3250
   \<and> integrate_work_joules scenario_series = 0"
  using integrate_work_joules_trapezoid[of stop_and_go]
        integrate_work_joules_trapezoid[of scenario_series]
  by (simp add: stop_and_go_def scenario_series_def blank_def notna_sum_def power0_def)

text \<open>
  On any series whose timestamps do not decrease, non-negative power gives non-negative
  work. The order matters: each trapezoid is weighted with its time delta.
\<close>

lemma integrate_nonneg_of_sorted:
  assumes "df \<noteq> []"
    and "sorted (map timestamp df)"
    and "\<forall>s\<in>set df. \<forall>p. power_w s = Some p \<longrightarrow> 0 \<le> p"
  shows "0 \<le> integrate_work_joules df"
proof -
  from assms(1) obtain a rest where df: "df = a # rest" by (cases df) auto
  have p0: "0 \<le> power0 s" if "s \<in> set df" for s
    using assms(3) that by (cases "power_w s") (auto simp: power0_def)
  have "0 \<le> trap_prev (power0 a) (timestamp a) rest"
    using assms(2) p0 unfolding df by (intro trap_prev_nonneg) auto
  then show ?thesis unfolding df integrate_Cons by simp
qed

text \<open>
  C1 (as the specification states it, refuted). In the scenario series only one sample
  has a power value, so the integrator returns 0 and not a value near 1000 J.
\<close>

theorem scenario_work_counterexample:
  "\<not> (positive_gain (map altitude_m scenario_series) = Inr 0
      \<and> \<bar>integrate_work_joules scenario_series - 1000\<bar> < 1000)"
  by (simp add: integrate_work_joules_def scenario_series_def blank_def notna_sum_def)

text \<open>
  C1 (amended). For the scenario series the elevation gain is 0 and the work integrator
  returns 0, because fewer than two samples have a power value. The trapezoid value of
  1000 J is returned for the same two samples once the first one has a measured power
  of 0 W.
\<close>

theorem scenario_gain_and_work:
  "positive_gain (map altitude_m scenario_series) = Inr 0
   \<and> integrate_work_joules scenario_series = 0
   \<and> integrate_work_joules scenario_with_power = 1000"
  by (simp add: integrate_work_joules_def scenario_series_def scenario_with_power_def
      blank_def notna_sum_def positive_gain_def is_object_def diff_def fsub_def present_def
      fillna_def shift1_def)

section \<open>Properties of the metrics calculator\<close>

lemma sum_diff_from:
  "sum_list (fillna 0 (diff_from (Some (timestamp a)) (map (\<lambda>s. Some (timestamp s)) xs)))
     = timestamp (last (a # xs)) - timestamp a"
  by (induction xs arbitrary: a) (auto simp: fillna_def fsub_def)

lemma moving_seconds_span: "moving_seconds df = moving_span df"
proof (cases "filter moving_mask df")
  case Nil
  then show ?thesis by (simp add: moving_seconds_def moving_span_def diff_def fillna_def)
next
  case (Cons a rest)
  then show ?thesis
    using sum_diff_from[of a rest]
    by (simp add: moving_seconds_def moving_span_def diff_def fillna_Cons_None del: last.simps)
qed

lemma compute_metrics_keys:
  "compute_metrics fmt df agg w e m = Inr s \<Longrightarrow> df \<noteq> [] \<Longrightarrow> map fst s = summary_keys"
  unfolding compute_metrics_def Let_def
  by (cases "positive_gain (map altitude_m df)") (auto simp: summary_keys_def)

text \<open>
  The no-data record is returned for the empty series and for no other one.
\<close>

lemma no_data_iff_empty:
  "compute_metrics fmt [] agg w e m = Inr no_data
   \<and> ((compute_metrics fmt df agg w e m = Inr no_data) = (df = []))"
  unfolding compute_metrics_def Let_def
  by (cases "positive_gain (map altitude_m df)") (auto simp: no_data_def)

text \<open>
  The calculator raises exactly when the series has two or more samples and none of them
  has an altitude: the altitude column then holds \<open>None\<close> only and \<open>series.diff()\<close> in
  \<open>positive_gain\<close> subtracts \<open>None\<close> from \<open>None\<close>.
\<close>

lemma compute_metrics_raises_iff:
  "(compute_metrics fmt df agg w e m = Inl TypeError)
     = (2 \<le> length df \<and> is_object (map altitude_m df))"
proof (cases "df = []")
  case True
  then show ?thesis by (simp add: compute_metrics_def)
next
  case False
  then show ?thesis
    unfolding compute_metrics_def Let_def
    by (cases "positive_gain (map altitude_m df)")
       (auto simp: positive_gain_def split: if_splits)
qed

text \<open>
  C2 (the code at the failing input). For the series \<open>stop_and_go\<close> the calculator
  computes the mean heart rate 130, the maximum heart rate 140 and the mean temperature
  20, but the dictionary it returns has the keys of \<open>summary_keys\<close> only: no heart-rate
  and no temperature field.
\<close>

theorem heart_rate_not_reported:
  "agg_or_none col_mean (map heart_rate_bpm stop_and_go) = Some 130
   \<and> agg_or_none col_max (map heart_rate_bpm stop_and_go) = Some 140
   \<and> agg_or_none col_mean (map temperature_c stop_and_go) = Some 20
   \<and> (case compute_metrics (\<lambda>t. []) stop_and_go () None None (Some 24) of
        Inl e \<Rightarrow> False | Inr s \<Rightarrow> map fst s = summary_keys)"
  by (simp add: eval_defs stop_and_go_def summary_keys_def)

text \<open>
  C3 (the code at the failing input). In \<open>stop_and_go\<close> the rider moves at t = 0 s, stands
  still at t = 10 s and moves again at t = 20 s. The time deltas whose earlier sample is
  moving add up to 10 s. The calculator selects the moving rows first and takes the
  differences of their timestamps afterwards, so the stop between the two moving rows is
  counted: the record holds a moving time of 20 s.
\<close>

theorem moving_time_counts_stops:
  "field (compute_metrics (\<lambda>t. []) stop_and_go () None None (Some 24)) ''moving_time_s''
     = Some (JNum 20)
   \<and> moving_time_spec stop_and_go = 10"
  by (simp add: eval_defs stop_and_go_def)

text \<open>
  What the calculator reports as moving time is, for every non-empty series and rounded
  to one decimal, the time from the first moving sample of the table to the last one,
  whatever happens in between, and 0 when no sample moves.
\<close>

lemma moving_time_is_span:
  assumes "compute_metrics fmt df agg w e m = Inr s" and "df \<noteq> []"
  shows "map_of s ''moving_time_s'' = Some (JNum (py_round (moving_span df) 1))"
  using assms unfolding compute_metrics_def Let_def
  by (cases "positive_gain (map altitude_m df)") (auto simp: moving_seconds_span)

text \<open>
  C4 (as the specification states it, refuted). With the muscular efficiency omitted the
  reference range of the record is absent.
\<close>

theorem calories_range_counterexample:
  "field (compute_metrics (\<lambda>t. []) stop_and_go () None None None)
     ''calories_food_est_range_kcal'' = Some JNull"
  by (simp add: eval_defs stop_and_go_def)

text \<open>
  C4 (amended). For every non-empty series for which a record is returned, the 20%/25%
  reference range is populated exactly when a muscular efficiency is supplied and is not
  zero. It is then computed from the mechanical calories at the two fixed efficiencies,
  rounded to one decimal, whatever the supplied value is. When the muscular efficiency
  is omitted, the food-calorie estimate and the reference range are both absent.
\<close>

theorem calories_range_guarded:
  assumes "compute_metrics fmt df agg w e m = Inr s" and "df \<noteq> []"
  shows "map_of s ''calories_food_est_range_kcal'' =
           Some (if truthy m
                 then JDict [(''20%'', JNum (py_round (integrate_work_joules df / 4184 / (20 / 100)) 1)),
                             (''25%'', JNum (py_round (integrate_work_joules df / 4184 / (25 / 100)) 1))]
                 else JNull)
         \<and> (m = None \<longrightarrow> map_of s ''calories_food_est_kcal'' = Some JNull)"
  using assms unfolding compute_metrics_def Let_def
  by (cases "positive_gain (map altitude_m df)") (auto simp: truthy_def jround_truthy_def)

theorem calories_range_guarded_witness:
  "\<exists>s. compute_metrics (\<lambda>t. []) stop_and_go () None None (Some 24) = Inr s
       \<and> stop_and_go \<noteq> []
       \<and> map_of s ''calories_food_est_range_kcal'' =
           Some (JDict [(''20%'', JNum (39 / 10)), (''25%'', JNum (31 / 10))])"
proof -
  obtain s where s: "compute_metrics (\<lambda>t. []) stop_and_go () None None (Some 24) = Inr s"
    by (simp add: eval_defs stop_and_go_def)
  have ne: "stop_and_go \<noteq> []" by (simp add: stop_and_go_def)
  have w: "integrate_work_joules stop_and_go = 3250"
    by (simp add: eval_defs stop_and_go_def)
  from calories_range_guarded[OF s ne] s ne show ?thesis
    by (simp add: w truthy_def py_round_def)
qed

section \<open>Properties of the record extractor\<close>

lemmas parse_defs = parse_fit_records_def from_message_def sort_values_def
  distance_trigger_def rebuild_distance_def speed_trigger_def rebuild_speed_def
  derived_speed_def mask_zero_def fill_altitude_def interpolate_def
  semicircles_to_deg_def SEMICIRCLES_TO_DEGREES_def at_cell_def haversine_m_def
  is_object_def xisna_sum_def notna_sum_def col_max_def present_def fillna_def
  diff_def fsub_def fadd_def xdiv_def xfillna_def of_opt_def or_zero_def Let_def msg_def

text \<open>
  C6 (the code at the failing input). The messages of \<open>gps_gap\<close> carry no distance, so
  the distance column is rebuilt. The second message has no position while the others
  have one: its coordinates are NaN, not \<open>None\<close>, the guard of \<open>haversine_m\<close> does not
  catch them, and the rebuilt distance is NaN from that row on instead of staying at 0.
  With no position in any message (\<open>no_gps\<close>) every step contributes 0.
\<close>

theorem distance_poisoned_by_gap:
  "map distance_m (parse_fit_records gps_gap) = [Some 0, None, None]
   \<and> map distance_m (parse_fit_records no_gps) = [Some 0, Some 0, Some 0]"
  by (simp add: parse_defs gps_gap_def no_gps_def numeral_2_eq_2)

lemma length_dists_upto: "length (dists_upto lat lon k) = Suc k"
  by (induction k) (auto simp: Let_def)

lemma length_rebuild_distance: "df \<noteq> [] \<Longrightarrow> length (rebuild_distance df) = length df"
  by (cases df) (auto simp: rebuild_distance_def Let_def length_dists_upto)

lemma map_zip_update:
  "length vs = length df \<Longrightarrow> (\<And>s v. f (g s v) = f s)
     \<Longrightarrow> map f (map (\<lambda>(s, v). g s v) (zip df vs)) = map f df"
proof (induction df arbitrary: vs)
  case Nil
  then show ?case by simp
next
  case (Cons a df)
  then show ?case by (cases vs) auto
qed

lemma rebuild_distance_cols:
  assumes "df \<noteq> []"
  shows "map speed_m_s (rebuild_distance df) = map speed_m_s df"
    and "map timestamp (rebuild_distance df) = map timestamp df"
proof -
  have len: "length (dists_upto (map latitude_deg df) (map longitude_deg df) (length df - 1))
               = length df"
    using assms by (cases df) (auto simp: length_dists_upto)
  show "map speed_m_s (rebuild_distance df) = map speed_m_s df"
    unfolding rebuild_distance_def Let_def
    by (rule map_zip_update[OF len, where g = "\<lambda>s v. s\<lparr>distance_m := v\<rparr>"]) simp
  show "map timestamp (rebuild_distance df) = map timestamp df"
    unfolding rebuild_distance_def Let_def
    by (rule map_zip_update[OF len, where g = "\<lambda>s v. s\<lparr>distance_m := v\<rparr>"]) simp
qed

lemma length_filter_insort_key:
  "length (filter P (insort_key f x xs)) = length (filter P (x # xs))"
  by (induction xs) auto

lemma length_filter_sort_key:
  "length (filter P (sort_key f xs)) = length (filter P xs)"
  by (induction xs) (auto simp: length_filter_insort_key)

lemma xisna_sum_map: "xisna_sum (map f df) = length (filter (\<lambda>s. f s = XNaN) df)"
  by (simp add: xisna_sum_def filter_map comp_def)

lemma speed_trigger_cong:
  "map speed_m_s df' = map speed_m_s df \<Longrightarrow> speed_trigger df' = speed_trigger df"
  unfolding speed_trigger_def by (metis length_map)

lemma speed_trigger_sort: "speed_trigger (sort_values df) = speed_trigger df"
  by (simp add: speed_trigger_def sort_values_def xisna_sum_map length_filter_sort_key)

lemma diff_from_nth:
  "i < length xs \<Longrightarrow> diff_from p xs ! i = fsub (xs ! i) (if i = 0 then p else xs ! (i - 1))"
proof (induction xs arbitrary: p i)
  case Nil
  then show ?case by simp
next
  case (Cons x xs)
  show ?case
  proof (cases i)
    case 0
    then show ?thesis by simp
  next
    case (Suc j)
    with Cons show ?thesis by (cases j) auto
  qed
qed

lemma length_diff_from: "length (diff_from p xs) = length xs"
  by (induction xs arbitrary: p) auto

lemma length_diff: "length (diff col) = length col"
  by (cases col) (auto simp: diff_def length_diff_from)

lemma diff_nth:
  "i < length col \<Longrightarrow> diff col ! i = (if i = 0 then None else fsub (col ! i) (col ! (i - 1)))"
proof (cases col)
  case Nil
  then show "i < length col \<Longrightarrow> ?thesis" by simp
next
  case (Cons x xs)
  assume "i < length col"
  with Cons show ?thesis
    by (cases i) (auto simp: diff_def diff_from_nth nth_Cons')
qed

lemma length_derived_speed: "length (derived_speed df) = length df"
  by (simp add: derived_speed_def Let_def fillna_def xfillna_def mask_zero_def length_diff)

lemma derived_speed_nth:
  assumes "i < length df"
  shows "derived_speed df ! i = XNum (speed_spec (map timestamp df) (map distance_m df) i)"
  using assms
  by (auto simp: derived_speed_def speed_spec_def Let_def fillna_def xfillna_def mask_zero_def
      length_diff diff_nth xdiv_def fsub_def split: option.splits)

lemma mask_zero_nonzero: "Some 0 \<notin> set (mask_zero dt)"
  by (auto simp: mask_zero_def)

lemma unmasked_division_infinite: "xfillna 0 [xdiv (Some 5) (Some 0)] = [XInf]"
  by (simp add: xdiv_def xfillna_def)

lemma rebuild_speed_cols:
  shows "map speed_m_s (rebuild_speed df) = derived_speed df"
    and "map timestamp (rebuild_speed df) = map timestamp df"
    and "map distance_m (rebuild_speed df) = map distance_m df"
    and "length (rebuild_speed df) = length df"
proof -
  have len: "length (derived_speed df) = length df" by (rule length_derived_speed)
  have "map speed_m_s (map (\<lambda>(s, v). s\<lparr>speed_m_s := v\<rparr>) (zip df vs)) = vs"
    if "length vs = length df" for vs
    using that
  proof (induction df arbitrary: vs)
    case Nil
    then show ?case by simp
  next
    case (Cons a df)
    then show ?case by (cases vs) auto
  qed
  from this[OF len] show "map speed_m_s (rebuild_speed df) = derived_speed df"
    by (simp add: rebuild_speed_def)
  show "map timestamp (rebuild_speed df) = map timestamp df"
    unfolding rebuild_speed_def
    by (rule map_zip_update[OF len, where g = "\<lambda>s v. s\<lparr>speed_m_s := v\<rparr>"]) simp
  show "map distance_m (rebuild_speed df) = map distance_m df"
    unfolding rebuild_speed_def
    by (rule map_zip_update[OF len, where g = "\<lambda>s v. s\<lparr>speed_m_s := v\<rparr>"]) simp
  show "length (rebuild_speed df) = length df"
    by (simp add: rebuild_speed_def len)
qed

lemma length_interp_from: "length (interp_from prev col) = length col"
  by (induction prev col rule: interp_from.induct) auto

lemma fill_altitude_cols:
  shows "map speed_m_s (fill_altitude df) = map speed_m_s df"
    and "map timestamp (fill_altitude df) = map timestamp df"
    and "map distance_m (fill_altitude df) = map distance_m df"
    and "length (fill_altitude df) = length df"
proof -
  have len: "length (interpolate (map altitude_m df)) = length df"
    by (simp add: interpolate_def length_interp_from)
  show "map speed_m_s (fill_altitude df) = map speed_m_s df"
    unfolding fill_altitude_def
    by (rule map_zip_update[OF len, where g = "\<lambda>s v. s\<lparr>altitude_m := v\<rparr>"]) simp
  show "map timestamp (fill_altitude df) = map timestamp df"
    unfolding fill_altitude_def
    by (rule map_zip_update[OF len, where g = "\<lambda>s v. s\<lparr>altitude_m := v\<rparr>"]) simp
  show "map distance_m (fill_altitude df) = map distance_m df"
    unfolding fill_altitude_def
    by (rule map_zip_update[OF len, where g = "\<lambda>s v. s\<lparr>altitude_m := v\<rparr>"]) simp
  show "length (fill_altitude df) = length df"
    by (simp add: fill_altitude_def len)
qed

lemma pre_speed_cols:
  assumes "msgs \<noteq> []"
  shows "speed_trigger (pre_speed msgs) = speed_trigger (map from_message msgs)"
    and "length (pre_speed msgs) = length msgs"
    and "pre_speed msgs \<noteq> []"
proof -
  let ?df = "sort_values (map from_message msgs)"
  have "length ?df = length msgs" by (simp add: sort_values_def)
  with assms have ne: "?df \<noteq> []" by auto
  show "speed_trigger (pre_speed msgs) = speed_trigger (map from_message msgs)"
    using speed_trigger_cong[OF rebuild_distance_cols(1)[OF ne]] speed_trigger_sort
    by (simp add: pre_speed_def Let_def)
  show len: "length (pre_speed msgs) = length msgs"
    using length_rebuild_distance[OF ne] by (simp add: pre_speed_def Let_def sort_values_def)
  from len assms show "pre_speed msgs \<noteq> []" by auto
qed

lemma parse_when_triggered:
  assumes "msgs \<noteq> []" and "speed_trigger (map from_message msgs)"
  shows "parse_fit_records msgs =
           (let df = rebuild_speed (pre_speed msgs)
            in if 5 < notna_sum (map altitude_m df) then fill_altitude df else df)"
  using assms pre_speed_cols(1)[OF assms(1)]
  by (simp add: parse_fit_records_def pre_speed_def Let_def)

lemma parse_speed_col:
  assumes "msgs \<noteq> []" and "speed_trigger (map from_message msgs)"
  shows "map speed_m_s (parse_fit_records msgs) = derived_speed (pre_speed msgs)"
    and "map timestamp (parse_fit_records msgs) = map timestamp (pre_speed msgs)"
    and "map distance_m (parse_fit_records msgs) = map distance_m (pre_speed msgs)"
    and "length (parse_fit_records msgs) = length msgs"
  unfolding parse_when_triggered[OF assms] Let_def
  by (simp_all add: fill_altitude_cols rebuild_speed_cols pre_speed_cols(2)[OF assms(1)])

text \<open>
  C7. For a non-empty input in which more than half of the speed values are absent, the
  speed pass runs: every row of the result holds the speed derived from the time and
  distance columns of the result, which is 0 in the first row and otherwise the distance
  delta (an absent one counted as 0) over the time delta. So no row is left without a
  speed. A row that shares its timestamp with the row before it gets the speed 0 and not
  an infinity: the zero time delta is masked before the division. Without the mask the
  division of a distance delta of 5 by a time delta of 0 gives \<open>inf\<close>, which \<open>fillna\<close>
  keeps (lemma \<open>unmasked_division_infinite\<close>).
\<close>

theorem speed_reconstruction:
  assumes "msgs \<noteq> []" and "speed_trigger (map from_message msgs)"
    and "i < length (parse_fit_records msgs)"
  shows "speed_m_s (parse_fit_records msgs ! i)
           = XNum (speed_spec (map timestamp (parse_fit_records msgs))
                              (map distance_m (parse_fit_records msgs)) i)
         \<and> speed_m_s (parse_fit_records msgs ! i) \<noteq> XNaN
         \<and> (0 < i \<and> timestamp (parse_fit_records msgs ! i)
                       = timestamp (parse_fit_records msgs ! (i - 1))
              \<longrightarrow> speed_m_s (parse_fit_records msgs ! i) = XNum 0)"
proof -
  let ?out = "parse_fit_records msgs" and ?pre = "pre_speed msgs"
  have len: "length ?out = length ?pre"
    using parse_speed_col(4)[OF assms(1,2)] pre_speed_cols(2)[OF assms(1)] by simp
  have "speed_m_s (?out ! i) = map speed_m_s ?out ! i"
    using assms(3) by simp
  also have "\<dots> = derived_speed ?pre ! i"
    by (simp only: parse_speed_col(1)[OF assms(1,2)])
  also have "\<dots> = XNum (speed_spec (map timestamp ?pre) (map distance_m ?pre) i)"
    using assms(3) len by (simp add: derived_speed_nth)
  finally have sp: "speed_m_s (?out ! i)
       = XNum (speed_spec (map timestamp ?out) (map distance_m ?out) i)"
    by (simp only: parse_speed_col(2,3)[OF assms(1,2)])
  moreover have "speed_m_s (?out ! i) = XNum 0"
    if "0 < i" and eq: "timestamp (?out ! i) = timestamp (?out ! (i - 1))"
    using that assms(3) unfolding sp by (simp add: speed_spec_def)
  ultimately show ?thesis by simp
qed

theorem speed_reconstruction_witness:
  "same_time \<noteq> [] \<and> speed_trigger (map from_message same_time)
   \<and> map timestamp (parse_fit_records same_time) = [7, 7]
   \<and> map distance_m (parse_fit_records same_time) = [Some 0, Some 5]
   \<and> speed_m_s (parse_fit_records same_time ! 1) = XNum 0
   \<and> speed_m_s (parse_fit_records mostly_absent ! 2) = XNum 1"
proof -
  have h1: "same_time \<noteq> []" by (simp add: same_time_def)
  have h2: "speed_trigger (map from_message same_time)"
    by (simp add: parse_defs same_time_def)
  have cols: "map timestamp (parse_fit_records same_time) = [7, 7]"
    by (simp add: parse_defs same_time_def)
  have dcol: "map distance_m (parse_fit_records same_time) = [Some 0, Some 5]"
    by (simp add: parse_defs same_time_def)
  from cols have len: "length (parse_fit_records same_time) = 2"
    by (metis length_map length_Cons list.size(3) numeral_2_eq_2)
  then have h3: "1 < length (parse_fit_records same_time)" by simp
  have a: "speed_m_s (parse_fit_records same_time ! 1) = XNum 0"
    using speed_reconstruction[OF h1 h2 h3] by (simp add: cols dcol speed_spec_def)
  have g1: "mostly_absent \<noteq> []" by (simp add: mostly_absent_def)
  have g2: "speed_trigger (map from_message mostly_absent)"
    by (simp add: parse_defs mostly_absent_def)
  have tcol: "map timestamp (parse_fit_records mostly_absent) = [0, 10, 20]"
    by (simp add: parse_defs mostly_absent_def)
  have mcol: "map distance_m (parse_fit_records mostly_absent) = [Some 0, Some 10, Some 20]"
    by (simp add: parse_defs mostly_absent_def)
  from tcol have "length (parse_fit_records mostly_absent) = 3"
    by (metis length_map length_Cons list.size(3) numeral_3_eq_3)
  then have g3: "2 < length (parse_fit_records mostly_absent)" by simp
  have b: "speed_m_s (parse_fit_records mostly_absent ! 2) = XNum 1"
    using speed_reconstruction[OF g1 g2 g3]
    by (simp add: tcol mcol speed_spec_def fsub_def numeral_2_eq_2)
  from a b h1 h2 cols dcol show ?thesis by simp
qed

lemma from_message_erase: "from_message (erase_speed m) = forget_speed (from_message m)"
  by (simp add: from_message_def erase_speed_def forget_speed_def of_opt_def)

lemma insort_key_forget:
  "insort_key timestamp (forget_speed x) (map forget_speed xs)
     = map forget_speed (insort_key timestamp x xs)"
  by (induction xs) (auto simp: forget_speed_def)

lemma sort_values_forget:
  "sort_values (map forget_speed df) = map forget_speed (sort_values df)"
  by (induction df) (auto simp: sort_values_def insort_key_forget)

lemma forget_cols:
  "map distance_m (map forget_speed df) = map distance_m df"
  "map timestamp (map forget_speed df) = map timestamp df"
  "map latitude_deg (map forget_speed df) = map latitude_deg df"
  "map longitude_deg (map forget_speed df) = map longitude_deg df"
  by (simp_all add: forget_speed_def)

lemma distance_trigger_forget: "distance_trigger (map forget_speed df) = distance_trigger df"
  unfolding distance_trigger_def forget_cols ..

lemma zip_update_forget:
  "map (\<lambda>(s, v). s\<lparr>distance_m := v\<rparr>) (zip (map forget_speed df) vs)
     = map forget_speed (map (\<lambda>(s, v). s\<lparr>distance_m := v\<rparr>) (zip df vs))"
proof (induction df arbitrary: vs)
  case Nil
  then show ?case by simp
next
  case (Cons a df)
  then show ?case by (cases vs) (auto simp: forget_speed_def)
qed

lemma rebuild_distance_forget:
  "rebuild_distance (map forget_speed df) = map forget_speed (rebuild_distance df)"
  unfolding rebuild_distance_def Let_def forget_cols
  by (simp only: zip_update_forget length_map)

lemma pre_speed_erase: "pre_speed (map erase_speed msgs) = map forget_speed (pre_speed msgs)"
proof -
  have "map from_message (map erase_speed msgs) = map forget_speed (map from_message msgs)"
    by (simp add: from_message_erase)
  then show ?thesis
    by (simp only: pre_speed_def Let_def sort_values_forget distance_trigger_forget
        rebuild_distance_forget if_distrib[of "map forget_speed"])
qed

lemma derived_speed_forget: "derived_speed (map forget_speed df) = derived_speed df"
proof -
  have "map (\<lambda>s. Some (timestamp s)) (map forget_speed df) = map (\<lambda>s. Some (timestamp s)) df"
    by (simp add: forget_speed_def)
  then show ?thesis
    unfolding derived_speed_def forget_cols by (simp only:)
qed

lemma zip_speed_forget:
  "map (\<lambda>(s, v). s\<lparr>speed_m_s := v\<rparr>) (zip (map forget_speed df) vs)
     = map (\<lambda>(s, v). s\<lparr>speed_m_s := v\<rparr>) (zip df vs)"
proof (induction df arbitrary: vs)
  case Nil
  then show ?case by simp
next
  case (Cons a df)
  then show ?case by (cases vs) (auto simp: forget_speed_def)
qed

lemma rebuild_speed_forget: "rebuild_speed (map forget_speed df) = rebuild_speed df"
  unfolding rebuild_speed_def derived_speed_forget by (rule zip_speed_forget)

lemma speed_trigger_erased:
  assumes "msgs \<noteq> []"
  shows "speed_trigger (map from_message (map erase_speed msgs))"
proof -
  have "xisna_sum (map speed_m_s (map from_message (map erase_speed msgs))) = length msgs"
    by (simp add: xisna_sum_def from_message_def erase_speed_def of_opt_def comp_def)
  moreover have "0 < length msgs" using assms by simp
  ultimately show ?thesis by (simp add: speed_trigger_def)
qed

text \<open>
  C10. When more than half of the speed values are absent, the whole speed column is
  replaced by the derived values: the result is the one obtained from the same messages
  with every speed field removed, so no speed value of the input survives, and the speed
  of the first row is 0.
\<close>

theorem speed_column_replaced:
  assumes "msgs \<noteq> []" and "speed_trigger (map from_message msgs)"
  shows "parse_fit_records msgs = parse_fit_records (map erase_speed msgs)
         \<and> speed_m_s (parse_fit_records msgs ! 0) = XNum 0"
proof -
  have ne': "map erase_speed msgs \<noteq> []" using assms(1) by simp
  have "parse_fit_records (map erase_speed msgs) = parse_fit_records msgs"
    unfolding parse_when_triggered[OF assms] parse_when_triggered[OF ne' speed_trigger_erased[OF assms(1)]]
    by (simp only: pre_speed_erase rebuild_speed_forget)
  moreover have "speed_m_s (parse_fit_records msgs ! 0) = XNum 0"
  proof -
    have pos: "0 < length msgs" using assms(1) by simp
    have "map speed_m_s (parse_fit_records msgs) ! 0 = derived_speed (pre_speed msgs) ! 0"
      by (simp only: parse_speed_col(1)[OF assms])
    moreover have "derived_speed (pre_speed msgs) ! 0 = XNum 0"
      using derived_speed_nth[of 0 "pre_speed msgs"] pos pre_speed_cols(2)[OF assms(1)]
      by (simp add: speed_spec_def)
    ultimately show ?thesis
      using pos parse_speed_col(4)[OF assms] by simp
  qed
  ultimately show ?thesis by simp
qed

theorem speed_column_replaced_witness:
  "mostly_absent \<noteq> [] \<and> speed_trigger (map from_message mostly_absent)
   \<and> map speed_m_s (map from_message mostly_absent) = [XNaN, XNum 9, XNaN]
   \<and> map speed_m_s (parse_fit_records mostly_absent) = [XNum 0, XNum 1, XNum 1]
   \<and> parse_fit_records mostly_absent = parse_fit_records (map erase_speed mostly_absent)
   \<and> speed_m_s (parse_fit_records mostly_absent ! 0) = XNum 0"
proof -
  have h1: "mostly_absent \<noteq> []" by (simp add: mostly_absent_def)
  have h2: "speed_trigger (map from_message mostly_absent)"
    by (simp add: parse_defs mostly_absent_def)
  have h3: "map speed_m_s (map from_message mostly_absent) = [XNaN, XNum 9, XNaN]"
    by (simp add: parse_defs mostly_absent_def)
  have h4: "map speed_m_s (parse_fit_records mostly_absent) = [XNum 0, XNum 1, XNum 1]"
    by (simp add: parse_defs mostly_absent_def)
  from speed_column_replaced[OF h1 h2] h1 h2 h3 h4 show ?thesis by blast
qed

subsection \<open>The great-circle distance and the rebuilt distance column\<close>

text \<open>
  The argument of the two square roots of \<open>haversine_m\<close> is a convex combination of a
  squared sine and a squared cosine, hence between 0 and 1, and a distance that is a
  number is non-negative.
\<close>

lemma cos_mult_half:
  fixes x y :: real
  shows "cos x * cos y = (cos ((x + y) / 2))\<^sup>2 - (sin ((y - x) / 2))\<^sup>2"
proof -
  define u v where "u = (x + y) / 2" and "v = (y - x) / 2"
  have x: "x = u - v" and y: "y = u + v" by (simp_all add: u_def v_def field_simps)
  have "cos x * cos y = (cos u * cos v + sin u * sin v) * (cos u * cos v - sin u * sin v)"
    unfolding x y by (simp add: cos_add cos_diff)
  also have "\<dots> = (cos u)\<^sup>2 * (cos v)\<^sup>2 - (sin u)\<^sup>2 * (sin v)\<^sup>2"
    by (simp add: power2_eq_square algebra_simps)
  also have "\<dots> = (cos u)\<^sup>2 * (1 - (sin v)\<^sup>2) - (1 - (cos u)\<^sup>2) * (sin v)\<^sup>2"
    by (simp only: cos_squared_eq[of v] sin_squared_eq[of u])
  also have "\<dots> = (cos u)\<^sup>2 - (sin v)\<^sup>2"
    by (simp add: algebra_simps)
  finally show ?thesis by (simp add: u_def v_def)
qed

lemma hav_a_convex:
  "hav_a lat1 lon1 lat2 lon2 =
     (1 - (sin (radians (lon2 - lon1) / 2))\<^sup>2) * (sin (radians (lat2 - lat1) / 2))\<^sup>2
     + (sin (radians (lon2 - lon1) / 2))\<^sup>2 * (cos ((radians lat1 + radians lat2) / 2))\<^sup>2"
proof -
  have r: "radians (lat2 - lat1) = radians lat2 - radians lat1"
    by (simp add: radians_def field_simps)
  show ?thesis
    unfolding hav_a_def Let_def r cos_mult_half[of "radians lat1" "radians lat2"]
    by (simp add: algebra_simps)
qed

lemma sq01: "0 \<le> (sin (t::real))\<^sup>2" "(sin t)\<^sup>2 \<le> 1" "0 \<le> (cos t)\<^sup>2" "(cos t)\<^sup>2 \<le> 1"
  by (simp_all add: abs_square_le_1)

lemma convex01:
  fixes s A B :: real
  assumes "0 \<le> s" "s \<le> 1" "0 \<le> A" "A \<le> 1" "0 \<le> B" "B \<le> 1"
  shows "0 \<le> (1 - s) * A + s * B" and "(1 - s) * A + s * B \<le> 1"
proof -
  show "0 \<le> (1 - s) * A + s * B" using assms by simp
  have "(1 - s) * A \<le> (1 - s) * 1" using assms by (intro mult_left_mono) auto
  moreover have "s * B \<le> s * 1" using assms by (intro mult_left_mono) auto
  ultimately show "(1 - s) * A + s * B \<le> 1" by simp
qed

lemma hav_a_bounds: "0 \<le> hav_a lat1 lon1 lat2 lon2" "hav_a lat1 lon1 lat2 lon2 \<le> 1"
  unfolding hav_a_convex by (rule convex01; rule sq01)+

lemma atan2_nonneg: "0 \<le> y \<Longrightarrow> 0 \<le> x \<Longrightarrow> 0 \<le> atan2 y x"
  by (auto simp: atan2_def)

lemma haversine_m_nonneg:
  "haversine_m lat1 lon1 lat2 lon2 = Some d \<Longrightarrow> 0 \<le> d"
  by (auto simp: haversine_m_def Let_def atan2_nonneg hav_a_bounds
      split: if_splits cell.splits)

text \<open>
  When neither position column mixes numbers with missing values, every step of the
  rebuilt distance is a non-negative number: the column starts at 0, has a value in
  every row and never decreases. The input \<open>gps_gap\<close> above is outside this case.
\<close>

lemma at_cell_unmixed: "unmixed col \<Longrightarrow> i < length col \<Longrightarrow> at_cell col i \<noteq> NaN"
  by (auto simp: unmixed_def at_cell_def list_all_length split: option.splits)

lemma haversine_m_defined:
  assumes "lat1 \<noteq> NaN" "lon1 \<noteq> NaN" "lat2 \<noteq> NaN" "lon2 \<noteq> NaN"
  shows "\<exists>d. haversine_m lat1 lon1 lat2 lon2 = Some d \<and> 0 \<le> d"
proof -
  have "haversine_m lat1 lon1 lat2 lon2 \<noteq> None"
    using assms
    by (cases lat1; cases lon1; cases lat2; cases lon2) (simp_all add: haversine_m_def Let_def)
  then obtain d where "haversine_m lat1 lon1 lat2 lon2 = Some d" by auto
  with haversine_m_nonneg[OF this] show ?thesis by simp
qed

lemma sorted_le_last: "sorted xs \<Longrightarrow> x \<in> set xs \<Longrightarrow> x \<le> last (xs :: real list)"
  by (induction xs) auto

lemma dists_upto_sorted:
  assumes "unmixed lat" "unmixed lon" "k < length lat" "k < length lon"
  shows "\<exists>ds. dists_upto lat lon k = map Some ds \<and> sorted ds \<and> ds \<noteq> [] \<and> hd ds = 0"
  using assms(3,4)
proof (induction k)
  case 0
  have "dists_upto lat lon 0 = map Some [0] \<and> sorted [0::real] \<and> [0::real] \<noteq> [] \<and> hd [0::real] = 0"
    by simp
  then show ?case by blast
next
  case (Suc k)
  then obtain ds where ds: "dists_upto lat lon k = map Some ds" "sorted ds" "ds \<noteq> []" "hd ds = 0"
    by auto
  obtain d where d: "haversine_m (at_cell lat k) (at_cell lon k)
                       (at_cell lat (Suc k)) (at_cell lon (Suc k)) = Some d" "0 \<le> d"
    using haversine_m_defined at_cell_unmixed assms(1,2) Suc.prems
    by (metis Suc_lessD)
  let ?ds = "ds @ [last ds + d]"
  have l: "last (map Some ds) = Some (last ds)" using ds(3) by (simp add: last_map)
  have "dists_upto lat lon (Suc k) = map Some ?ds"
    using ds(1) d(1) l by (simp add: Let_def fadd_def or_zero_def)
  moreover have "sorted ?ds"
    using ds(2) d(2) sorted_le_last[OF ds(2)] by (fastforce simp: sorted_append)
  moreover have "?ds \<noteq> []" "hd ?ds = 0" using ds(3,4) by simp_all
  ultimately show ?case by blast
qed

lemma rebuild_distance_col:
  assumes "df \<noteq> []"
  shows "map distance_m (rebuild_distance df)
           = dists_upto (map latitude_deg df) (map longitude_deg df) (length df - 1)"
proof -
  have "map distance_m (map (\<lambda>(s, v). s\<lparr>distance_m := v\<rparr>) (zip df vs)) = vs"
    if "length vs = length df" for vs
    using that
  proof (induction df arbitrary: vs)
    case Nil
    then show ?case by simp
  next
    case (Cons a df)
    then show ?case by (cases vs) auto
  qed
  moreover have "length (dists_upto (map latitude_deg df) (map longitude_deg df) (length df - 1))
                   = length df"
    using assms by (cases df) (auto simp: length_dists_upto)
  ultimately show ?thesis by (simp add: rebuild_distance_def Let_def)
qed

lemma rebuilt_distance_monotone:
  assumes "df \<noteq> []" and "unmixed (map latitude_deg df)" and "unmixed (map longitude_deg df)"
  shows "\<exists>ds. map distance_m (rebuild_distance df) = map Some ds \<and> sorted ds \<and> hd ds = 0"
proof -
  have "length df - 1 < length df" using assms(1) by (cases df) auto
  then show ?thesis
    using dists_upto_sorted[OF assms(2,3), of "length df - 1"]
    unfolding rebuild_distance_col[OF assms(1)] by auto
qed

section \<open>The extractor followed by the integrator and the calculator\<close>

lemma parse_timestamps:
  "map timestamp (parse_fit_records msgs) = map timestamp (sort_values (map from_message msgs))"
proof (cases "msgs = []")
  case True
  then show ?thesis by (simp add: parse_fit_records_def sort_values_def)
next
  case False
  let ?df = "sort_values (map from_message msgs)"
  have "length ?df = length msgs" by (simp add: sort_values_def)
  with False have ne: "?df \<noteq> []" by auto
  show ?thesis
    using False
    by (simp add: parse_fit_records_def Let_def fill_altitude_cols(2) rebuild_speed_cols(2)
        rebuild_distance_cols(2)[OF ne])
qed

lemma parse_sorted: "sorted (map timestamp (parse_fit_records msgs))"
  unfolding parse_timestamps by (simp add: sort_values_def)

lemma parse_length: "length (parse_fit_records msgs) = length msgs"
proof -
  have "length (map timestamp (parse_fit_records msgs))
          = length (map timestamp (sort_values (map from_message msgs)))"
    by (simp only: parse_timestamps)
  then show ?thesis by (simp add: sort_values_def)
qed

text \<open>
  C9. The series that the extractor produces from a non-empty input is not empty and is
  sorted by timestamp, and when every power value present in it is non-negative, the
  result of the work integrator on it is non-negative. In \<open>unsorted_ride\<close> the messages
  are stored in the wrong order: on the unsorted rows the integrator would return
  -1000 J, on the extractor's series it returns 1000 J.
\<close>

theorem integrate_work_joules_nonneg:
  assumes "msgs \<noteq> []"
    and "\<forall>s\<in>set (parse_fit_records msgs). \<forall>p. power_w s = Some p \<longrightarrow> 0 \<le> p"
  shows "parse_fit_records msgs \<noteq> []
         \<and> sorted (map timestamp (parse_fit_records msgs))
         \<and> 0 \<le> integrate_work_joules (parse_fit_records msgs)"
proof -
  have ne: "parse_fit_records msgs \<noteq> []"
    using assms(1) parse_length[of msgs] by auto
  from integrate_nonneg_of_sorted[OF ne parse_sorted assms(2)] ne parse_sorted
  show ?thesis by simp
qed

theorem integrate_work_joules_nonneg_witness:
  "unsorted_ride \<noteq> []
   \<and> map timestamp (map from_message unsorted_ride) = [10, 0]
   \<and> integrate_work_joules (map from_message unsorted_ride) = - 1000
   \<and> map timestamp (parse_fit_records unsorted_ride) = [0, 10]
   \<and> map power_w (parse_fit_records unsorted_ride) = [Some 100, Some 100]
   \<and> integrate_work_joules (parse_fit_records unsorted_ride) = 1000
   \<and> 0 \<le> integrate_work_joules (parse_fit_records unsorted_ride)"
proof -
  have h1: "unsorted_ride \<noteq> []" by (simp add: unsorted_ride_def)
  have raw: "map from_message unsorted_ride =
               [(blank 10)\<lparr>power_w := Some 100\<rparr>, (blank 0)\<lparr>power_w := Some 100\<rparr>]"
    by (simp add: unsorted_ride_def from_message_def msg_def blank_def of_opt_def
        semicircles_to_deg_def)
  have t0: "map timestamp (map from_message unsorted_ride) = [10, 0]"
    unfolding raw by (simp add: blank_def)
  have w0: "integrate_work_joules (map from_message unsorted_ride) = - 1000"
    unfolding raw
    by (simp add: integrate_work_joules_def blank_def notna_sum_def fillna_def shift1_def
        diff_def fsub_def)
  have t1: "map timestamp (parse_fit_records unsorted_ride) = [0, 10]"
    by (simp add: parse_defs unsorted_ride_def)
  have p1: "map power_w (parse_fit_records unsorted_ride) = [Some 100, Some 100]"
    by (simp add: parse_defs unsorted_ride_def)
  have "\<forall>s\<in>set (parse_fit_records unsorted_ride). power_w s \<in> set (map power_w (parse_fit_records unsorted_ride))"
    by simp
  then have h2: "\<forall>s\<in>set (parse_fit_records unsorted_ride). \<forall>p. power_w s = Some p \<longrightarrow> 0 \<le> p"
    unfolding p1 by auto
  obtain a b where ab: "parse_fit_records unsorted_ride = [a, b]"
    using t1 by (cases "parse_fit_records unsorted_ride") auto
  have w1: "integrate_work_joules (parse_fit_records unsorted_ride) = 1000"
    using t1 p1 unfolding ab
    by (simp add: integrate_work_joules_def notna_sum_def fillna_def shift1_def diff_def
        fsub_def)
  from integrate_work_joules_nonneg[OF h1 h2] h1 t0 w0 t1 p1 w1 show ?thesis by simp
qed

text \<open>
  C8 (the code at the failing input). For the empty series the calculator returns the
  no-data record and raises nothing. It is not the only way in which the calculator
  fails: the three messages of \<open>no_gps\<close> carry no altitude, the extractor gives them an
  altitude column that holds \<open>None\<close> only, and on this series the calculator raises
  \<open>TypeError\<close> in \<open>positive_gain\<close> instead of returning a record. The columns of heart
  rate, cadence, power and temperature are guarded by \<open>notna().any()\<close>; the altitude
  column is guarded against the empty series only.
\<close>

theorem metrics_raises_without_altitude:
  "compute_metrics fmt [] agg w e m = Inr no_data
   \<and> map altitude_m (parse_fit_records no_gps) = [None, None, None]
   \<and> compute_metrics fmt (parse_fit_records no_gps) agg w e m = Inl TypeError"
proof -
  have alt: "map altitude_m (parse_fit_records no_gps) = [None, None, None]"
    by (simp add: parse_defs no_gps_def numeral_2_eq_2)
  have len: "length (parse_fit_records no_gps) = 3"
    by (simp add: parse_length no_gps_def)
  have "compute_metrics fmt (parse_fit_records no_gps) agg w e m = Inl TypeError"
    unfolding compute_metrics_raises_iff alt len by (simp add: is_object_def)
  moreover have "compute_metrics fmt [] agg w e m = Inr no_data"
    by (simp add: compute_metrics_def)
  ultimately show ?thesis using alt by simp
qed

end
